theory Spec2Isabelle
  imports Complex_Main
begin

section \<open>Transposed-convolution layers of layer/convolution_transpose.py\<close>

text \<open>
  The module builds two layers on top of a tensor framework: the primitive
  \<open>ConvTransLayer\<close> and the composite \<open>ConvolutionalTransposeLayer\<close>.
  Both are graph builders: a call takes a tensor handle, registers parameters
  through \<open>tf.get_variable\<close> and returns a new tensor handle. The embedding
  keeps tensor handles symbolic (the operator that produced them, with the
  arguments it was given), threads the list of created parameters explicitly,
  and turns every exception into a value of type \<open>error\<close>.
\<close>

subsection \<open>Errors\<close>

datatype error =
    UnsupportedOperation string  \<comment> \<open>raised by \<open>look_up_operations\<close>\<close>
  | IndexError                   \<comment> \<open>Python list index out of range\<close>
  | NumpyValueError              \<comment> \<open>numpy: no array can be made, or arrays cannot be stacked\<close>
  | TruthValueError              \<comment> \<open>the value has no truth value (an array, a tensor)\<close>
  | FrameworkError string        \<comment> \<open>raised by an operator of the tensor framework\<close>
  | LayerError string            \<comment> \<open>raised by a collaborating layer\<close>

text \<open>One fallible step after another: the first exception ends the run.\<close>

definition and_then :: "error + 'a \<Rightarrow> ('a \<Rightarrow> error + 'b) \<Rightarrow> error + 'b" where
  "and_then r f = (case r of Inl e \<Rightarrow> Inl e | Inr x \<Rightarrow> f x)"

subsection \<open>Python and numpy values\<close>

text \<open>
  What the constructor is given for \<open>kernel_size\<close> and \<open>stride\<close>, and what
  \<open>np.vstack\<close> receives as the members of its tuple: an integer, a sequence of
  integers, or a sequence of sequences of integers.
\<close>

datatype array_like =
    Scalar int
  | Vector "int list"
  | Rows "int list list"

text \<open>
  Whether numpy makes the value into an array of numbers: the sequences in a
  sequence must all have the same length.
\<close>

fun rectangular :: "array_like \<Rightarrow> bool" where
  "rectangular (Scalar k) = True"
| "rectangular (Vector ks) = True"
| "rectangular (Rows rs) =
     (case rs of [] \<Rightarrow> True | r # rest \<Rightarrow> list_all (\<lambda>q. length q = length r) rest)"

text \<open>\<open>np.asarray(v)\<close>: numpy refuses a ragged sequence.\<close>

definition asarray :: "array_like \<Rightarrow> error + array_like" where
  "asarray v = (if rectangular v then Inr v else Inl NumpyValueError)"

text \<open>\<open>a.flatten()\<close> of an array \<open>a\<close>.\<close>

fun flatten :: "array_like \<Rightarrow> int list" where
  "flatten (Scalar k) = [k]"
| "flatten (Vector ks) = ks"
| "flatten (Rows rs) = concat rs"

text \<open>
  \<open>np.atleast_2d\<close>: a scalar becomes a 1 x 1 array, a vector of length n a
  1 x n array; the empty sequence is a vector of length 0, hence 1 x 0.
\<close>

fun atleast_2d :: "array_like \<Rightarrow> int list list" where
  "atleast_2d (Scalar k) = [[k]]"
| "atleast_2d (Vector ks) = [ks]"
| "atleast_2d (Rows rs) = (if rs = [] then [[]] else rs)"

definition ncols :: "int list list \<Rightarrow> nat" where
  "ncols a = (case a of [] \<Rightarrow> 0 | r # _ \<Rightarrow> length r)"

text \<open>
  \<open>np.vstack(tup)\<close>: every member is made into an array of at least two
  dimensions, and the members are concatenated along the first axis, which
  needs at least one member and the same number of columns in all of them.
\<close>

definition vstack :: "array_like list \<Rightarrow> error + int list list" where
  "vstack tup =
     (if list_all rectangular tup then
        (let arrs = map atleast_2d tup in
         case arrs of
           [] \<Rightarrow> Inl NumpyValueError
         | a # as \<Rightarrow>
             if list_all (\<lambda>b. ncols b = ncols a) as then Inr (concat arrs)
             else Inl NumpyValueError)
      else Inl NumpyValueError)"

text \<open>\<open>str.upper()\<close> on ASCII strings.\<close>

definition upper_char :: "char \<Rightarrow> char" where
  "upper_char c =
     (let n = (of_char c :: nat) in
      if 97 \<le> n \<and> n \<le> 122 then char_of (n - 32) else c)"

definition upper :: "string \<Rightarrow> string" where
  "upper s = map upper_char s"

subsection \<open>Tensor framework\<close>

type_synonym shape = "int list"

text \<open>
  Initializers and regularizers are values that the layers pass on; \<open>'i\<close> and
  \<open>'r\<close> are the types of the values a caller supplies, and the two defaults
  of the module are constructors of their own. The constructors of the layers
  take the truth value of an initializer, so a supplied initializer comes with
  what Python makes of it there: a function or an initializer object is true,
  a value such as 0 or an empty sequence is false, and an array or a tensor
  has no truth value.
\<close>

datatype truth_value = IsTrue | IsFalse | HasNoTruthValue

datatype 'i initializer =
    default_w_initializer
  | default_b_initializer
  | Supplied truth_value 'i

text \<open>\<open>bool(v)\<close> of an initializer; both defaults are objects that are true.\<close>

fun truth :: "'i initializer \<Rightarrow> error + bool" where
  "truth default_w_initializer = Inr True"
| "truth default_b_initializer = Inr True"
| "truth (Supplied IsTrue i) = Inr True"
| "truth (Supplied IsFalse i) = Inr False"
| "truth (Supplied HasNoTruthValue i) = Inl TruthValueError"

text \<open>
  The conditional expression \<open>v if v else d\<close> on an argument that is \<open>None\<close>
  or an initializer.
\<close>

definition if_else :: "'i initializer option \<Rightarrow> 'i initializer \<Rightarrow> error + 'i initializer" where
  "if_else v d =
     (case v of
        None \<Rightarrow> Inr d
      | Some i \<Rightarrow>
          (case truth i of
             Inl e \<Rightarrow> Inl e
           | Inr t \<Rightarrow> Inr (if t then i else d)))"

record ('i, 'r) variable =
  var_name :: string
  var_shape :: shape
  var_initializer :: "'i initializer"
  var_regularizer :: "'r option"

text \<open>
  A tensor handle: \<open>Op\<close> is a tensor made outside this module (the input of a
  layer, the output of a collaborating layer) with its name, static shape and
  inputs; the other two are the operators this module calls.
\<close>

datatype ('i, 'r) tensor =
    Op string shape "('i, 'r) tensor list"
  | Conv3dTranspose "('i, 'r) tensor" "('i, 'r) variable" shape "int list" string string
  | BiasAdd "('i, 'r) tensor" "('i, 'r) variable" string

text \<open>\<open>tensor.get_shape().as_list()\<close>, for fully defined static shapes.\<close>

fun get_shape :: "('i, 'r) tensor \<Rightarrow> shape" where
  "get_shape (Op nm sh ins) = sh"
| "get_shape (Conv3dTranspose v f output_shape strides pad nm) = output_shape"
| "get_shape (BiasAdd v b nm) = get_shape v"

text \<open>
  What a built tensor was made with: the filter and the strides of the
  transposed convolution it comes from, seen through an added bias.
\<close>

fun filter_of :: "('i, 'r) tensor \<Rightarrow> ('i, 'r) variable option" where
  "filter_of (Op nm sh ins) = None"
| "filter_of (Conv3dTranspose v f output_shape strides pad nm) = Some f"
| "filter_of (BiasAdd v b nm) = filter_of v"

fun strides_of :: "('i, 'r) tensor \<Rightarrow> int list option" where
  "strides_of (Op nm sh ins) = None"
| "strides_of (Conv3dTranspose v f output_shape strides pad nm) = Some strides"
| "strides_of (BiasAdd v b nm) = strides_of v"

text \<open>The parameters created so far, in order of creation.\<close>

type_synonym ('i, 'r) graph = "('i, 'r) variable list"

text \<open>
  The framework counts in signed 64-bit integers. A dimension of a shape is
  such an integer that is not negative.
\<close>

definition int64 :: "int \<Rightarrow> bool" where
  "int64 v = (- (2 ^ 63) \<le> v \<and> v < 2 ^ 63)"

definition dimension :: "int \<Rightarrow> bool" where
  "dimension d = (0 \<le> d \<and> d < 2 ^ 63)"

text \<open>
  \<open>tf.get_variable(name, shape, initializer, regularizer)\<close> in the fresh
  variable scope of a layer. The framework refuses a shape with an entry that
  is not a dimension (numpy holds the stacked sizes as 64-bit integers, and a
  stack with a larger size reaches the framework as floats or as objects), and
  a shape of more than \<open>2 ^ 63 - 1\<close> elements; otherwise it creates the
  parameter.
\<close>

definition get_variable ::
  "string \<Rightarrow> shape \<Rightarrow> 'i initializer \<Rightarrow> 'r option \<Rightarrow> ('i, 'r) graph
     \<Rightarrow> error + (('i, 'r) variable \<times> ('i, 'r) graph)" where
  "get_variable nm sh ini reg g =
     (if list_all dimension sh \<and> prod_list sh < 2 ^ 63 then
        (let v = \<lparr>var_name = nm, var_shape = sh, var_initializer = ini,
                  var_regularizer = reg\<rparr>
         in Inr (v, g @ [v]))
      else Inl (FrameworkError ''shape refused''))"

text \<open>
  The size that a convolution with a window of \<open>filter_size\<close> and the given
  stride and padding makes of \<open>input_size\<close> along one axis, as the framework
  computes it (its division truncates); there is none for a stride that is
  not positive, and none that would be negative.
\<close>

definition trunc_div :: "int \<Rightarrow> int \<Rightarrow> int" where
  "trunc_div a b = (if 0 \<le> a then a div b else - ((- a) div b))"

definition windowed_output_size :: "int \<Rightarrow> int \<Rightarrow> int \<Rightarrow> string \<Rightarrow> int option" where
  "windowed_output_size input_size filter_size strd pad =
     (if strd \<le> 0 then None
      else
        let out = (if pad = ''VALID'' then trunc_div (input_size - filter_size + strd) strd
                   else trunc_div (input_size + strd - 1) strd)
        in if out < 0 then None else Some out)"

text \<open>
  A transposed convolution is the gradient of a convolution: it can produce
  \<open>output_shape\<close> from a value only if the convolution with the same filter,
  strides and padding makes the shape of the value out of \<open>output_shape\<close>. The
  batch sizes agree, the strides along batch and channels are 1, and along
  each of the three spatial axes the windowed size of the output is the size
  of the value.
\<close>

definition servable :: "shape \<Rightarrow> shape \<Rightarrow> shape \<Rightarrow> int list \<Rightarrow> string \<Rightarrow> bool" where
  "servable value_shape filter_shape output_shape strides pad =
     (output_shape ! 0 = value_shape ! 0 \<and> strides ! 0 = 1 \<and> strides ! 4 = 1 \<and>
      list_all
        (\<lambda>a. windowed_output_size (output_shape ! a) (filter_shape ! (a - 1)) (strides ! a)
                pad = Some (value_shape ! a))
        [1, 2, 3])"

text \<open>
  \<open>tf.nn.conv3d_transpose(value, filter, output_shape, strides, padding, name)\<close>,
  the framework's transposed 3-D convolution, by its interface: \<open>value\<close> is a
  5-D tensor [batch, depth, height, width, in_channels], \<open>filter\<close> a 5-D tensor
  [depth, height, width, output_channels, in_channels] whose in_channels is
  that of \<open>value\<close>, \<open>output_shape\<close> has five dimensions, the last one being the
  filter's output_channels, \<open>padding\<close> is VALID or SAME, \<open>strides\<close> is a list
  of five integers, and the request must be one the operator can serve. A
  request that it cannot serve is refused when the graph is built or aborts
  when the graph is run; the model does not tell the two apart and counts both
  as an exception of the call. The tensor handle that is returned has the
  static shape \<open>output_shape\<close>. The arithmetic of the operator is not part of
  the module and is not modelled.
\<close>

definition conv3d_transpose ::
  "('i, 'r) tensor \<Rightarrow> ('i, 'r) variable \<Rightarrow> shape \<Rightarrow> int list \<Rightarrow> string \<Rightarrow> string
     \<Rightarrow> error + ('i, 'r) tensor" where
  "conv3d_transpose val filt output_shape strides pad nm =
     (if length (get_shape val) = 5 \<and> length (var_shape filt) = 5 then
        if get_shape val ! 4 = var_shape filt ! 4 then
          if length output_shape = 5 \<and> list_all dimension output_shape then
            if var_shape filt ! 3 = output_shape ! 4 then
              if pad = ''VALID'' \<or> pad = ''SAME'' then
                if length strides = 5 \<and> list_all int64 strides then
                  if servable (get_shape val) (var_shape filt) output_shape strides pad then
                    Inr (Conv3dTranspose val filt output_shape strides pad nm)
                  else Inl (FrameworkError ''output_shape cannot be produced'')
                else Inl (FrameworkError ''strides must be five integers'')
              else Inl (FrameworkError ''padding must be either VALID or SAME'')
            else Inl (FrameworkError ''output channels do not match'')
          else Inl (FrameworkError ''output_shape must have shape (5,)'')
        else Inl (FrameworkError ''input channels do not match'')
      else Inl (FrameworkError ''value and filter must be 5-D''))"

text \<open>
  \<open>tf.nn.bias_add(value, bias, name)\<close>: \<open>bias\<close> is 1-D and as long as the last
  dimension of \<open>value\<close>; the result has the shape of \<open>value\<close>.
\<close>

definition bias_add ::
  "('i, 'r) tensor \<Rightarrow> ('i, 'r) variable \<Rightarrow> string \<Rightarrow> error + ('i, 'r) tensor" where
  "bias_add val bias nm =
     (if get_shape val \<noteq> [] \<and> var_shape bias = [last (get_shape val)] then
        Inr (BiasAdd val bias nm)
      else Inl (FrameworkError ''bias does not match the channel dimension''))"

subsection \<open>Helpers of the repository that the module imports\<close>

definition SUPPORTED_PADDING :: "string set" where
  "SUPPORTED_PADDING = {''SAME'', ''VALID''}"

text \<open>
  Modelled from the spec: \<open>utilities.misc_common.look_up_operations\<close> is not
  among the source files. The padding mode must be a member of the supported
  set; a member is returned, anything else fails at once.
\<close>

definition look_up_operations :: "string \<Rightarrow> string set \<Rightarrow> error + string" where
  "look_up_operations type_str supported =
     (if type_str \<in> supported then Inr type_str
      else Inl (UnsupportedOperation type_str))"

text \<open>
  Modelled from the spec: \<open>layer_util.infer_spatial_rank\<close> is not among the
  source files. A tensor is laid out as batch, spatial dimensions, channels,
  and the spatial rank is inferred from its shape: the rank less two.
\<close>

definition infer_spatial_rank :: "('i, 'r) tensor \<Rightarrow> int" where
  "infer_spatial_rank input_tensor = int (length (get_shape input_tensor)) - 2"

subsection \<open>ConvTransLayer\<close>

text \<open>
  Modelled from the spec: the base class \<open>base_layer.TrainableLayer\<close> is not
  among the source files. It keeps the name of the layer, and calling a layer
  runs its \<open>layer_op\<close>; creating the parameters once and finding them again
  under the name of the layer is left to the framework.
\<close>

record ('i, 'r) ConvTransLayer =
  name :: string
  padding :: string
  n_output_chns :: int
  kernel_size :: "int list"
  stride :: "int list"
  with_bias :: bool
  initializers_w :: "'i initializer"
  initializers_b :: "'i initializer"
  regularizers_w :: "'r option"
  regularizers_b :: "'r option"

text \<open>
  \<open>ConvTransLayer.__init__\<close>, statement by statement: the lookup of the
  upper-cased padding, the two conversions to flat arrays, and the two
  conditional expressions that replace an initializer that is absent or false
  by the module's default.
\<close>

definition ConvTransLayer_init ::
  "int \<Rightarrow> array_like \<Rightarrow> array_like \<Rightarrow> string \<Rightarrow> bool
     \<Rightarrow> 'i initializer option \<Rightarrow> 'r option \<Rightarrow> 'i initializer option \<Rightarrow> 'r option
     \<Rightarrow> string \<Rightarrow> error + ('i, 'r) ConvTransLayer" where
  "ConvTransLayer_init n_out ksize strd pad bias w_initializer w_regularizer
       b_initializer b_regularizer nm =
     (case look_up_operations (upper pad) SUPPORTED_PADDING of
        Inl e \<Rightarrow> Inl e
      | Inr p \<Rightarrow>
     (case asarray ksize of
        Inl e \<Rightarrow> Inl e
      | Inr ka \<Rightarrow>
     (case asarray strd of
        Inl e \<Rightarrow> Inl e
      | Inr sa \<Rightarrow>
     (case if_else w_initializer default_w_initializer of
        Inl e \<Rightarrow> Inl e
      | Inr wi \<Rightarrow>
     (case if_else b_initializer default_b_initializer of
        Inl e \<Rightarrow> Inl e
      | Inr bi \<Rightarrow>
          Inr \<lparr>name = nm,
               padding = p,
               n_output_chns = n_out,
               kernel_size = flatten ka,
               stride = flatten sa,
               with_bias = bias,
               initializers_w = wi,
               initializers_b = bi,
               regularizers_w = w_regularizer,
               regularizers_b = b_regularizer\<rparr>)))))"

text \<open>
  The shape of the weight tensor (\<open>w_full_size\<close>, flattened): the stack of
  \<open>[self.kernel_size] * spatial_rank\<close>, the output channels and the input
  channels. A Python list repeated a non-positive number of times is empty.
\<close>

definition w_full_size ::
  "('i, 'r) ConvTransLayer \<Rightarrow> int \<Rightarrow> int \<Rightarrow> error + int list" where
  "w_full_size l spatial_rank n_input_chns =
     (case vstack [Rows (replicate (nat spatial_rank) (kernel_size l)),
                   Scalar (n_output_chns l), Scalar n_input_chns] of
        Inl e \<Rightarrow> Inl e
      | Inr a \<Rightarrow> Inr (concat a))"

text \<open>
  \<open>full_stride\<close>, flattened: here the tuple given to \<open>np.vstack\<close> is the list
  \<open>[self.stride] * spatial_rank\<close> itself.
\<close>

definition full_stride :: "('i, 'r) ConvTransLayer \<Rightarrow> int \<Rightarrow> error + int list" where
  "full_stride l spatial_rank =
     (case vstack (replicate (nat spatial_rank) (Vector (stride l))) of
        Inl e \<Rightarrow> Inl e
      | Inr a \<Rightarrow> Inr (concat a))"

text \<open>
  \<open>ConvTransLayer.layer_op\<close>. The requested output shape is the input shape
  with its last entry overwritten by the number of output channels.
\<close>

definition ConvTransLayer_layer_op ::
  "('i, 'r) ConvTransLayer \<Rightarrow> ('i, 'r) tensor \<Rightarrow> ('i, 'r) graph
     \<Rightarrow> error + (('i, 'r) tensor \<times> ('i, 'r) graph)" where
  "ConvTransLayer_layer_op l input_tensor g =
     (let input_shape = get_shape input_tensor in
      if input_shape = [] then Inl IndexError
      else
        let n_input_chns = last input_shape;
            spatial_rank = infer_spatial_rank input_tensor
        in
        (case w_full_size l spatial_rank n_input_chns of
          Inl e \<Rightarrow> Inl e
        | Inr w_size \<Rightarrow>
        (case full_stride l spatial_rank of
          Inl e \<Rightarrow> Inl e
        | Inr f_stride \<Rightarrow>
        (case get_variable ''w'' w_size (initializers_w l) (regularizers_w l) g of
          Inl e \<Rightarrow> Inl e
        | Inr (conv_kernel, g1) \<Rightarrow>
        let output_shape = butlast input_shape @ [n_output_chns l] in
        (case conv3d_transpose input_tensor conv_kernel output_shape
               ([1] @ f_stride @ [1]) (padding l) ''conv_trans'' of
          Inl e \<Rightarrow> Inl e
        | Inr output_tensor \<Rightarrow>
        if \<not> with_bias l then Inr (output_tensor, g1)
        else
          (case get_variable ''b'' [n_output_chns l] (initializers_b l)
                 (regularizers_b l) g1 of
            Inl e \<Rightarrow> Inl e
          | Inr (bias_term, g2) \<Rightarrow>
          (case bias_add output_tensor bias_term ''add_bias'' of
            Inl e \<Rightarrow> Inl e
          | Inr biased \<Rightarrow> Inr (biased, g2))))))))"

subsection \<open>Collaborating layers\<close>

text \<open>A keyword argument of a call: left out, or given.\<close>

datatype 'a kwarg = Omitted | Given 'a

text \<open>
  Modelled from the spec: \<open>bn.BNLayer\<close> and \<open>activation.ActiLayer\<close> are not
  among the source files. They are external collaborators of the composite
  block: the normalization stage consumes a training/inference mode flag, the
  activation stage is selected by a function name, and the dropout stage is the
  activation collaborator with the function name dropout and a
  keep-probability. A constructed collaborator is the record of the arguments
  its constructor was given; what a call of it does is a parameter of the
  composite layer (\<open>bn_call\<close>, \<open>acti_call\<close> below), which may create
  parameters of its own and may fail.
\<close>

record ('r, 'f) BNLayer =
  bn_regularizer :: "'r option"
  bn_moving_decay :: 'f
  bn_eps :: 'f
  bn_name :: string

record 'r ActiLayer =
  func :: string
  acti_regularizer :: "'r option kwarg"
  acti_name :: string

type_synonym ('i, 'r) built = "error + (('i, 'r) tensor \<times> ('i, 'r) graph)"

type_synonym ('i, 'r, 'f) bn_call =
  "('r, 'f) BNLayer \<Rightarrow> ('i, 'r) tensor \<Rightarrow> bool option \<Rightarrow> ('i, 'r) graph \<Rightarrow> ('i, 'r) built"

type_synonym ('i, 'r, 'f) acti_call =
  "'r ActiLayer \<Rightarrow> ('i, 'r) tensor \<Rightarrow> 'f kwarg \<Rightarrow> ('i, 'r) graph \<Rightarrow> ('i, 'r) built"

text \<open>
  Stand-ins for the two collaborators, for concrete runs: each returns a new
  tensor named after the layer that was applied, of the shape of its input.
\<close>

definition recording_bn_call :: "('i, 'r, 'f) bn_call" where
  "recording_bn_call l t is_training g = Inr (Op (bn_name l) (get_shape t) [t], g)"

definition recording_acti_call :: "('i, 'r, 'f) acti_call" where
  "recording_acti_call l t keep_prob g = Inr (Op (func l) (get_shape t) [t], g)"

subsection \<open>ConvolutionalTransposeLayer\<close>

text \<open>
  The fields that the composite layer shares by name with \<open>ConvTransLayer\<close>
  carry a prime. \<open>'f\<close> is the type of the floating-point values that are
  passed on (moving decay, epsilon, keep-probability).
\<close>

record ('i, 'r, 'f) ConvolutionalTransposeLayer =
  acti_func :: "string option"
  with_bn :: bool
  layer_name :: string
  n_output_chns' :: int
  kernel_size' :: array_like
  stride' :: array_like
  padding' :: string
  with_bias' :: bool
  moving_decay :: 'f
  eps :: 'f
  initializers_w' :: "'i initializer"
  initializers_b' :: "'i initializer"
  regularizers_w' :: "'r option"
  regularizers_b' :: "'r option"

text \<open>
  \<open>ConvolutionalTransposeLayer.__init__\<close>: the arguments are stored as they
  come, but for the initializers, which go through the same conditional
  expressions as in \<open>ConvTransLayer\<close>; no other statement of the constructor
  can raise.
\<close>

definition ConvolutionalTransposeLayer_init ::
  "int \<Rightarrow> array_like \<Rightarrow> array_like \<Rightarrow> string \<Rightarrow> bool \<Rightarrow> bool \<Rightarrow> string option
     \<Rightarrow> 'i initializer option \<Rightarrow> 'r option \<Rightarrow> 'i initializer option \<Rightarrow> 'r option
     \<Rightarrow> 'f \<Rightarrow> 'f \<Rightarrow> string \<Rightarrow> error + ('i, 'r, 'f) ConvolutionalTransposeLayer" where
  "ConvolutionalTransposeLayer_init n_out ksize strd pad bias bn acti w_initializer
       w_regularizer b_initializer b_regularizer decay epsilon nm =
     (case if_else w_initializer default_w_initializer of
        Inl e \<Rightarrow> Inl e
      | Inr wi \<Rightarrow>
     (case if_else b_initializer default_b_initializer of
        Inl e \<Rightarrow> Inl e
      | Inr bi \<Rightarrow>
          Inr \<lparr>acti_func = acti,
               with_bn = bn,
               layer_name =
                 nm @ (if bn then ''_bn'' else [])
                    @ (case acti of None \<Rightarrow> [] | Some f \<Rightarrow> ''_'' @ f),
               n_output_chns' = n_out,
               kernel_size' = ksize,
               stride' = strd,
               padding' = pad,
               with_bias' = bias,
               moving_decay = decay,
               eps = epsilon,
               initializers_w' = wi,
               initializers_b' = bi,
               regularizers_w' = w_regularizer,
               regularizers_b' = b_regularizer\<rparr>))"

text \<open>The sub-layers that \<open>layer_op\<close> constructs, named as its local variables.\<close>

definition conv_trans_layer ::
  "('i, 'r, 'f) ConvolutionalTransposeLayer \<Rightarrow> error + ('i, 'r) ConvTransLayer" where
  "conv_trans_layer c =
     ConvTransLayer_init (n_output_chns' c) (kernel_size' c) (stride' c) (padding' c)
       (with_bias' c) (Some (initializers_w' c)) (regularizers_w' c)
       (Some (initializers_b' c)) (regularizers_b' c) ''conv_trans_''"

definition bn_layer :: "('i, 'r, 'f) ConvolutionalTransposeLayer \<Rightarrow> ('r, 'f) BNLayer" where
  "bn_layer c =
     \<lparr>bn_regularizer = regularizers_w' c, bn_moving_decay = moving_decay c,
      bn_eps = eps c, bn_name = ''bn_''\<rparr>"

definition acti_layer ::
  "('i, 'r, 'f) ConvolutionalTransposeLayer \<Rightarrow> string \<Rightarrow> 'r ActiLayer" where
  "acti_layer c f =
     \<lparr>func = f, acti_regularizer = Given (regularizers_w' c), acti_name = ''acti_''\<rparr>"

definition dropout_layer :: "'r ActiLayer" where
  "dropout_layer =
     \<lparr>func = ''dropout'', acti_regularizer = Omitted, acti_name = ''dropout_''\<rparr>"

text \<open>
  \<open>ConvolutionalTransposeLayer.layer_op(input_tensor, is_training, keep_prob)\<close>.
  Calling a layer runs its \<open>layer_op\<close>.
\<close>

definition ConvolutionalTransposeLayer_layer_op ::
  "('i, 'r, 'f) bn_call \<Rightarrow> ('i, 'r, 'f) acti_call
     \<Rightarrow> ('i, 'r, 'f) ConvolutionalTransposeLayer \<Rightarrow> ('i, 'r) tensor
     \<Rightarrow> bool option \<Rightarrow> 'f option \<Rightarrow> ('i, 'r) graph \<Rightarrow> ('i, 'r) built" where
  "ConvolutionalTransposeLayer_layer_op bn_call acti_call c input_tensor is_training
       keep_prob g =
     (case conv_trans_layer c of
        Inl e \<Rightarrow> Inl e
      | Inr ctl \<Rightarrow>
     (case ConvTransLayer_layer_op ctl input_tensor g of
        Inl e \<Rightarrow> Inl e
      | Inr (out0, g0) \<Rightarrow>
     (case (if with_bn c then bn_call (bn_layer c) out0 is_training g0
            else Inr (out0, g0)) of
        Inl e \<Rightarrow> Inl e
      | Inr (out1, g1) \<Rightarrow>
     (case (case acti_func c of
              None \<Rightarrow> Inr (out1, g1)
            | Some f \<Rightarrow> acti_call (acti_layer c f) out1 Omitted g1) of
        Inl e \<Rightarrow> Inl e
      | Inr (out2, g2) \<Rightarrow>
     (case keep_prob of
        None \<Rightarrow> Inr (out2, g2)
      | Some kp \<Rightarrow> acti_call dropout_layer out2 (Given kp) g2)))))"

subsection \<open>The composite block as the specification words it\<close>




section \<open>Properties\<close>

subsection \<open>Stacking\<close>

lemma concat_replicate_single: "concat (replicate n [x]) = replicate n x"
  by (induction n) auto

lemma list_all_replicate: "list_all P (replicate n x) = (n = 0 \<or> P x)"
  by (induction n) auto

lemma rectangular_replicate: "rectangular (Rows (replicate n ks))"
  by (cases n) (simp_all add: list_all_replicate)

lemma vstack_Cons:
  "vstack (x # xs) =
     (if rectangular x \<and> list_all rectangular xs then
        if list_all (\<lambda>b. ncols b = ncols (atleast_2d x)) (map atleast_2d xs)
        then Inr (atleast_2d x @ concat (map atleast_2d xs))
        else Inl NumpyValueError
      else Inl NumpyValueError)"
  by (simp add: vstack_def)

lemma vstack_replicate_Vector:
  "vstack (replicate n (Vector s)) =
     (if n = 0 then Inl NumpyValueError else Inr (replicate n s))"
proof (cases n)
  case 0
  then show ?thesis by (simp add: vstack_def)
next
  case (Suc m)
  then show ?thesis
    by (simp add: vstack_Cons list_all_replicate concat_replicate_single)
qed

lemma w_full_size_eq:
  "w_full_size l N n_in =
     (if 0 < N \<and> length (kernel_size l) = 1
      then Inr (replicate (nat N) (hd (kernel_size l)) @ [n_output_chns l, n_in])
      else Inl NumpyValueError)"
proof (cases "nat N")
  case 0
  then show ?thesis
    by (simp add: w_full_size_def vstack_Cons ncols_def)
next
  case (Suc m)
  then have pos: "0 < N" by linarith
  have rect: "list_all (\<lambda>q. length q = length (kernel_size l)) (replicate m (kernel_size l))"
    by (simp add: list_all_replicate)
  show ?thesis
  proof (cases "kernel_size l")
    case Nil
    then show ?thesis using Suc rect
      by (simp add: w_full_size_def vstack_Cons ncols_def)
  next
    case (Cons k ks)
    then show ?thesis using Suc pos rect
      by (cases ks)
         (simp_all add: w_full_size_def vstack_Cons ncols_def concat_replicate_single)
  qed
qed

lemma full_stride_eq:
  "full_stride l N =
     (if 0 < N then Inr (concat (replicate (nat N) (stride l))) else Inl NumpyValueError)"
  by (simp add: full_stride_def vstack_replicate_Vector)

subsection \<open>What a call of the primitive layer returns\<close>

lemma length5E:
  assumes "length (sh :: 'a list) = 5"
  obtains a b c d e where "sh = [a, b, c, d, e]"
proof -
  from assms obtain a s1 where 1: "sh = a # s1" "length s1 = 4" by (cases sh) auto
  then obtain b s2 where 2: "s1 = b # s2" "length s2 = 3" by (cases s1) auto
  then obtain c s3 where 3: "s2 = c # s3" "length s3 = 2" by (cases s2) auto
  then obtain d s4 where 4: "s3 = d # s4" "length s4 = 1" by (cases s3) auto
  then obtain e where 5: "s4 = [e]" by (cases s4) auto
  show thesis using that 1 2 3 4 5 by simp
qed

lemma replicate3: "replicate 3 v = [v, v, v]"
  by (simp add: numeral_3_eq_3)

lemma get_variable_Inr:
  "get_variable nm sh ini reg g = Inr (v, g') \<longleftrightarrow>
     list_all dimension sh \<and> prod_list sh < 2 ^ 63
     \<and> v = \<lparr>var_name = nm, var_shape = sh, var_initializer = ini, var_regularizer = reg\<rparr>
     \<and> g' = g @ [v]"
  by (auto simp add: get_variable_def Let_def)

lemma conv3d_transpose_Inr:
  "conv3d_transpose val filt output_shape strides pad nm = Inr t \<longleftrightarrow>
     length (get_shape val) = 5 \<and> length (var_shape filt) = 5
     \<and> get_shape val ! 4 = var_shape filt ! 4
     \<and> length output_shape = 5 \<and> list_all dimension output_shape
     \<and> var_shape filt ! 3 = output_shape ! 4
     \<and> (pad = ''VALID'' \<or> pad = ''SAME'')
     \<and> length strides = 5 \<and> list_all int64 strides
     \<and> servable (get_shape val) (var_shape filt) output_shape strides pad
     \<and> t = Conv3dTranspose val filt output_shape strides pad nm"
  by (auto simp add: conv3d_transpose_def)

lemma bias_add_Inr:
  "bias_add val bias nm = Inr t \<longleftrightarrow>
     get_shape val \<noteq> [] \<and> var_shape bias = [last (get_shape val)] \<and> t = BiasAdd val bias nm"
  by (auto simp add: bias_add_def)

text \<open>The steps of a call that returns, one after the other.\<close>

lemma ConvTransLayer_layer_op_steps:
  assumes "ConvTransLayer_layer_op l x g = Inr (y, g')"
  obtains w_size f_stride conv_kernel g1 output_tensor where
    "get_shape x \<noteq> []"
    "w_full_size l (infer_spatial_rank x) (last (get_shape x)) = Inr w_size"
    "full_stride l (infer_spatial_rank x) = Inr f_stride"
    "get_variable ''w'' w_size (initializers_w l) (regularizers_w l) g = Inr (conv_kernel, g1)"
    "conv3d_transpose x conv_kernel (butlast (get_shape x) @ [n_output_chns l])
       ([1] @ f_stride @ [1]) (padding l) ''conv_trans'' = Inr output_tensor"
    "if with_bias l then
       \<exists>bias_term. get_variable ''b'' [n_output_chns l] (initializers_b l) (regularizers_b l) g1
           = Inr (bias_term, g')
         \<and> bias_add output_tensor bias_term ''add_bias'' = Inr y
     else y = output_tensor \<and> g' = g1"
  using assms
  by (auto simp add: ConvTransLayer_layer_op_def Let_def
      split: if_splits sum.splits prod.splits)

lemma ConvTransLayer_layer_op_Inr:
  assumes "ConvTransLayer_layer_op l x g = Inr (y, g')"
  defines "w \<equiv> \<lparr>var_name = ''w'',
                 var_shape = replicate 3 (hd (kernel_size l)) @
                   [n_output_chns l, last (get_shape x)],
                 var_initializer = initializers_w l, var_regularizer = regularizers_w l\<rparr>"
  defines "b \<equiv> \<lparr>var_name = ''b'', var_shape = [n_output_chns l],
                 var_initializer = initializers_b l, var_regularizer = regularizers_b l\<rparr>"
  defines "conv \<equiv> Conv3dTranspose x w (butlast (get_shape x) @ [n_output_chns l])
                    ([1] @ concat (replicate 3 (stride l)) @ [1]) (padding l) ''conv_trans''"
  shows "length (get_shape x) = 5"
    and "length (kernel_size l) = 1"
    and "y = (if with_bias l then BiasAdd conv b ''add_bias'' else conv)"
    and "g' = g @ (if with_bias l then [w, b] else [w])"
    and "0 \<le> hd (kernel_size l) \<and> 0 \<le> n_output_chns l \<and> 0 \<le> last (get_shape x)"
    and "padding l = ''SAME'' \<or> padding l = ''VALID''"
    and "length (stride l) = 1"
proof -
  from assms(1) obtain w_size f_stride conv_kernel g1 output_tensor where
    ne: "get_shape x \<noteq> []"
    and ws: "w_full_size l (infer_spatial_rank x) (last (get_shape x)) = Inr w_size"
    and fs: "full_stride l (infer_spatial_rank x) = Inr f_stride"
    and gv: "get_variable ''w'' w_size (initializers_w l) (regularizers_w l) g
               = Inr (conv_kernel, g1)"
    and ct: "conv3d_transpose x conv_kernel (butlast (get_shape x) @ [n_output_chns l])
       ([1] @ f_stride @ [1]) (padding l) ''conv_trans'' = Inr output_tensor"
    and rest: "if with_bias l then
       \<exists>bias_term. get_variable ''b'' [n_output_chns l] (initializers_b l) (regularizers_b l) g1
           = Inr (bias_term, g')
         \<and> bias_add output_tensor bias_term ''add_bias'' = Inr y
     else y = output_tensor \<and> g' = g1"
    by (rule ConvTransLayer_layer_op_steps)
  from ct show 5: "length (get_shape x) = 5"
    by (simp add: conv3d_transpose_Inr)
  then have N: "nat (infer_spatial_rank x) = 3" "infer_spatial_rank x = 3"
    by (simp_all add: infer_spatial_rank_def)
  from ws show k: "length (kernel_size l) = 1"
    by (simp add: w_full_size_eq split: if_splits)
  from ws k N have w_size: "w_size = replicate 3 (hd (kernel_size l)) @
      [n_output_chns l, last (get_shape x)]"
    by (simp add: w_full_size_eq)
  from fs N have f_stride: "f_stride = concat (replicate 3 (stride l))"
    by (simp add: full_stride_eq)
  from gv w_size have ck: "conv_kernel = w" and g1: "g1 = g @ [w]"
    and dims: "list_all dimension w_size"
    by (simp_all add: get_variable_Inr w_def)
  from ct ck f_stride have ot: "output_tensor = conv"
    by (simp add: conv3d_transpose_Inr conv_def)
  from ct show "padding l = ''SAME'' \<or> padding l = ''VALID''"
    by (auto simp add: conv3d_transpose_Inr)
  from dims w_size
  show "0 \<le> hd (kernel_size l) \<and> 0 \<le> n_output_chns l \<and> 0 \<le> last (get_shape x)"
    by (simp add: replicate3 dimension_def)
  from ct f_stride have "length (concat (replicate 3 (stride l))) = 3"
    by (simp add: conv3d_transpose_Inr)
  then show "length (stride l) = 1"
    by (simp add: replicate3)
  from rest ot g1
  show "y = (if with_bias l then BiasAdd conv b ''add_bias'' else conv)"
    by (auto simp add: get_variable_Inr bias_add_Inr b_def split: if_splits)
  from rest ot g1
  show "g' = g @ (if with_bias l then [w, b] else [w])"
    by (auto simp add: get_variable_Inr bias_add_Inr b_def split: if_splits)
qed

lemma windowed_output_size_stride_1:
  assumes "0 \<le> d" and "pad = ''SAME'' \<or> pad = ''VALID'' \<and> k = 1"
  shows "windowed_output_size d k 1 pad = Some d"
  using assms by (auto simp add: windowed_output_size_def trunc_div_def)

lemma ConvTransLayer_layer_op_succeeds:
  assumes "length (get_shape x) = 5" and "list_all dimension (get_shape x)"
    and "kernel_size l = [k]" and "1 \<le> k" and "k < 2 ^ 63"
    and "stride l = [1]"
    and "dimension (n_output_chns l)"
    and "k * k * k * n_output_chns l * last (get_shape x) < 2 ^ 63"
    and "padding l = ''SAME'' \<or> padding l = ''VALID'' \<and> k = 1"
  shows "\<exists>y g'. ConvTransLayer_layer_op l x g = Inr (y, g')"
proof -
  from assms(1) obtain a b c d e where sh: "get_shape x = [a, b, c, d, e]"
    by (rule length5E)
  have N: "infer_spatial_rank x = 3"
    by (simp add: infer_spatial_rank_def sh)
  let ?w = "\<lparr>var_name = ''w'', var_shape = [k, k, k, n_output_chns l, e],
             var_initializer = initializers_w l, var_regularizer = regularizers_w l\<rparr>"
  have ws: "w_full_size l 3 e = Inr [k, k, k, n_output_chns l, e]"
    using assms(3) by (simp add: w_full_size_eq replicate3)
  have fs: "full_stride l 3 = Inr [1, 1, 1]"
    using assms(6) by (simp add: full_stride_eq replicate3)
  have "prod_list [k, k, k, n_output_chns l, e] = k * k * k * n_output_chns l * e"
    by (simp add: mult.assoc)
  then have gv: "get_variable ''w'' [k, k, k, n_output_chns l, e] (initializers_w l)
      (regularizers_w l) g = Inr (?w, g @ [?w])"
    using assms(2,4,5,7,8) sh by (simp add: get_variable_Inr dimension_def)
  have wo: "windowed_output_size v k 1 (padding l) = Some v" if "0 \<le> v" for v
    using that assms(9) by (rule windowed_output_size_stride_1)
  have ct: "conv3d_transpose x ?w [a, b, c, d, n_output_chns l] [1, 1, 1, 1, 1] (padding l)
      ''conv_trans''
    = Inr (Conv3dTranspose x ?w [a, b, c, d, n_output_chns l] [1, 1, 1, 1, 1] (padding l)
        ''conv_trans'')"
    using assms(2,7,9) sh
    by (auto simp add: conv3d_transpose_Inr servable_def int64_def dimension_def wo)
  have gb: "get_variable ''b'' [n_output_chns l] (initializers_b l) (regularizers_b l) g0
    = Inr (\<lparr>var_name = ''b'', var_shape = [n_output_chns l],
             var_initializer = initializers_b l, var_regularizer = regularizers_b l\<rparr>,
           g0 @ [\<lparr>var_name = ''b'', var_shape = [n_output_chns l],
             var_initializer = initializers_b l, var_regularizer = regularizers_b l\<rparr>])" for g0
    using assms(7) by (simp add: get_variable_Inr dimension_def)
  show ?thesis
    by (simp add: ConvTransLayer_layer_op_def Let_def sh N ws fs gv ct gb bias_add_def)
qed

lemma get_shape_result:
  assumes "ConvTransLayer_layer_op l x g = Inr (y, g')"
  shows "get_shape y = butlast (get_shape x) @ [n_output_chns l]"
  using ConvTransLayer_layer_op_Inr(3) [OF assms] by simp


subsection \<open>Output shape of the primitive layer\<close>

text \<open>
  C1: for an input of shape [1, 8, 8, 8, 4], the layer built with 16 output
  channels, kernel size 3, stride 2 and padding SAME should return a tensor of
  shape [1, 16, 16, 16, 16]. On this input the call returns no tensor at all:
  the layer hands the stride 2 to the operator but asks it for the output
  shape [1, 8, 8, 8, 16], the input shape with only the channel count
  replaced, which the operator cannot produce from this input; the shape of
  the claim, [1, 16, 16, 16, 16], is one it can produce.
\<close>

theorem C1_example_request_refused:
  "and_then
     (ConvTransLayer_init 16 (Scalar 3) (Scalar 2) ''SAME'' False
        (None :: unit initializer option) (None :: unit option) None None ''conv'')
     (\<lambda>l. ConvTransLayer_layer_op l (Op ''input'' [1, 8, 8, 8, 4] []) [])
   = Inl (FrameworkError ''output_shape cannot be produced'')
   \<and> \<not> servable [1, 8, 8, 8, 4] [3, 3, 3, 16, 4] [1, 8, 8, 8, 16] [1, 2, 2, 2, 1] ''SAME''
   \<and> servable [1, 8, 8, 8, 4] [3, 3, 3, 16, 4] [1, 16, 16, 16, 16] [1, 2, 2, 2, 1] ''SAME''"
  by code_simp

text \<open>
  C2: whenever a call of the primitive layer returns a tensor, the last
  (channel) dimension of that tensor is the configured number of output
  channels and its rank is the rank of the input, for every layer
  configuration and every input tensor.
\<close>

theorem C2_output_channels_and_rank:
  assumes "ConvTransLayer_layer_op l x g = Inr (y, g')"
  shows "last (get_shape y) = n_output_chns l
    \<and> length (get_shape y) = length (get_shape x)"
  using get_shape_result [OF assms] ConvTransLayer_layer_op_Inr(1) [OF assms]
  by simp

theorem C2_witness:
  "\<exists>y g'. ConvTransLayer_layer_op
       \<lparr>name = ''conv'', padding = ''SAME'', n_output_chns = 16, kernel_size = [3],
        stride = [1], with_bias = True,
        initializers_w = (default_w_initializer :: unit initializer),
        initializers_b = default_b_initializer,
        regularizers_w = (None :: unit option), regularizers_b = None\<rparr>
       (Op ''input'' [1, 8, 8, 8, 4] []) [] = Inr (y, g')
     \<and> last (get_shape y) = 16 \<and> length (get_shape y) = 5"
proof -
  let ?l = "\<lparr>name = ''conv'', padding = ''SAME'', n_output_chns = 16, kernel_size = [3],
        stride = [1], with_bias = True,
        initializers_w = (default_w_initializer :: unit initializer),
        initializers_b = default_b_initializer,
        regularizers_w = (None :: unit option), regularizers_b = None\<rparr>"
  let ?x = "Op ''input'' [1, 8, 8, 8, 4] [] :: (unit, unit) tensor"
  have "\<exists>y g'. ConvTransLayer_layer_op ?l ?x [] = Inr (y, g')"
    by (rule ConvTransLayer_layer_op_succeeds [where k = 3])
       (simp_all add: dimension_def)
  then obtain y g' where h: "ConvTransLayer_layer_op ?l ?x [] = Inr (y, g')"
    by blast
  from C2_output_channels_and_rank [OF h] h show ?thesis
    by simp
qed

subsection \<open>Construction\<close>

lemma upper_examples:
  "upper ''same'' = ''SAME''" "upper ''SAME'' = ''SAME''" "upper ''FULL'' = ''FULL''"
  by code_simp+

lemma FULL_unsupported: "''FULL'' \<notin> SUPPORTED_PADDING" "''SAME'' \<in> SUPPORTED_PADDING"
  by (simp_all add: SUPPORTED_PADDING_def)

lemma if_else_None [simp]: "if_else None d = Inr d"
  by (simp add: if_else_def)

lemma if_else_Inl:
  "if_else v d = Inl e \<longleftrightarrow> e = TruthValueError \<and> (\<exists>i. v = Some (Supplied HasNoTruthValue i))"
proof (cases v)
  case None
  then show ?thesis by simp
next
  case (Some j)
  then show ?thesis
    by (cases j rule: truth.cases) (auto simp add: if_else_def)
qed


lemma ConvTransLayer_init_eq:
  "ConvTransLayer_init n k s p b wi wr bi br nm =
     (if upper p \<in> SUPPORTED_PADDING then
        if rectangular k \<and> rectangular s then
          (case if_else wi default_w_initializer of
             Inl e \<Rightarrow> Inl e
           | Inr w0 \<Rightarrow>
          (case if_else bi default_b_initializer of
             Inl e \<Rightarrow> Inl e
           | Inr b0 \<Rightarrow>
               Inr \<lparr>name = nm, padding = upper p, n_output_chns = n,
                    kernel_size = flatten k, stride = flatten s, with_bias = b,
                    initializers_w = w0, initializers_b = b0,
                    regularizers_w = wr, regularizers_b = br\<rparr>))
        else Inl NumpyValueError
      else Inl (UnsupportedOperation (upper p)))"
  by (simp add: ConvTransLayer_init_def look_up_operations_def asarray_def)

lemma ConvTransLayer_init_Inr:
  "(\<exists>l. ConvTransLayer_init n k s p b wi wr bi br nm = Inr l) \<longleftrightarrow>
     upper p \<in> SUPPORTED_PADDING \<and> rectangular k \<and> rectangular s
     \<and> \<not> isl (if_else wi default_w_initializer) \<and> \<not> isl (if_else bi default_b_initializer)"
  by (auto simp add: ConvTransLayer_init_eq split: sum.splits)

lemma ConvolutionalTransposeLayer_init_Inr:
  "(\<exists>c. ConvolutionalTransposeLayer_init n k s p b bnf af wi wr bi br d e nm = Inr c) \<longleftrightarrow>
     \<not> isl (if_else wi default_w_initializer) \<and> \<not> isl (if_else bi default_b_initializer)"
  by (auto simp add: ConvolutionalTransposeLayer_init_def split: sum.splits)

lemma ConvolutionalTransposeLayer_init_fields:
  assumes "ConvolutionalTransposeLayer_init n k s p b bnf af wi wr bi br d e nm = Inr c"
  shows "n_output_chns' c = n" and "kernel_size' c = k" and "stride' c = s"
    and "padding' c = p" and "with_bias' c = b" and "with_bn c = bnf" and "acti_func c = af"
    and "regularizers_w' c = wr" and "regularizers_b' c = br"
    and "moving_decay c = d" and "eps c = e"
    and "if_else wi default_w_initializer = Inr (initializers_w' c)"
    and "if_else bi default_b_initializer = Inr (initializers_b' c)"
  using assms
  by (auto simp add: ConvolutionalTransposeLayer_init_def split: sum.splits)

lemma conv_trans_layer_unsupported:
  assumes "upper (padding' c) \<notin> SUPPORTED_PADDING"
  shows "ConvolutionalTransposeLayer_layer_op bn_call acti_call c x tr kp g =
    Inl (UnsupportedOperation (upper (padding' c)))"
  using assms
  by (simp add: ConvolutionalTransposeLayer_layer_op_def conv_trans_layer_def
      ConvTransLayer_init_eq)

lemma ConvTransLayer_layer_op_Inl:
  assumes "ConvTransLayer_layer_op l x g = Inl err"
    and "padding l = ''SAME'' \<or> padding l = ''VALID''"
  shows "err \<noteq> FrameworkError ''padding must be either VALID or SAME''"
    and "err \<noteq> UnsupportedOperation t"
  using assms
  by (auto simp add: ConvTransLayer_layer_op_def Let_def w_full_size_eq full_stride_eq
      get_variable_def conv3d_transpose_def bias_add_def split: if_splits sum.splits)

text \<open>
  C3, as the specification gives it: either layer is constructed for the
  padding strings SAME and VALID, construction of either layer fails for any
  other string, and no padding failure waits for the call. The composite layer
  does not behave so: its constructor accepts the string FULL, and the failure
  comes when the layer is called.
\<close>

theorem C3_counterexample:
  "\<not> isl (ConvolutionalTransposeLayer_init 16 (Scalar 3) (Scalar 1) ''FULL'' False True None
            (None :: unit initializer option) (None :: unit option) None None
            (0.9 :: real) 0.00001 ''conv_trans'')
   \<and> and_then
        (ConvolutionalTransposeLayer_init 16 (Scalar 3) (Scalar 1) ''FULL'' False True None
            (None :: unit initializer option) (None :: unit option) None None
            (0.9 :: real) 0.00001 ''conv_trans'')
        (\<lambda>c. ConvolutionalTransposeLayer_layer_op recording_bn_call recording_acti_call c
                (Op ''input'' [1, 8, 8, 8, 4] []) None None [])
      = Inl (UnsupportedOperation ''FULL'')"
  by (simp add: ConvolutionalTransposeLayer_init_def and_then_def
      conv_trans_layer_unsupported upper_examples FULL_unsupported)

text \<open>
  C3, amended: the primitive layer is constructed exactly for the padding
  strings whose upper-case form is SAME or VALID (the kernel size and the
  stride being numbers or rectangular sequences, and each initializer absent
  or with a truth value), and for every other padding string its construction
  fails at once; a primitive layer that was constructed never fails on its
  padding when it is called. The composite layer is constructed for every
  padding string, since it stores the string unchecked (its constructor only
  takes the truth values of the initializers); with an unsupported string it
  fails when it is called, at the point where it builds its primitive
  sub-layer.
\<close>

theorem C3_padding_checked_when_primitive_is_built:
  "((\<exists>l. ConvTransLayer_init n k s p b wi wr bi br nm = Inr l) \<longleftrightarrow>
       upper p \<in> SUPPORTED_PADDING \<and> rectangular k \<and> rectangular s
       \<and> \<not> isl (if_else wi default_w_initializer)
       \<and> \<not> isl (if_else bi default_b_initializer))
   \<and> (upper p \<notin> SUPPORTED_PADDING \<longrightarrow>
        ConvTransLayer_init n k s p b wi wr bi br nm = Inl (UnsupportedOperation (upper p)))
   \<and> (\<forall>l. ConvTransLayer_init n k s p b wi wr bi br nm = Inr l \<longrightarrow>
        (padding l = ''SAME'' \<or> padding l = ''VALID'')
        \<and> (\<forall>t. ConvTransLayer_layer_op l x g \<noteq> Inl (UnsupportedOperation t))
        \<and> ConvTransLayer_layer_op l x g \<noteq>
            Inl (FrameworkError ''padding must be either VALID or SAME''))
   \<and> ((\<exists>c. ConvolutionalTransposeLayer_init n k s p b bnf af wi wr bi br d e nm' = Inr c) \<longleftrightarrow>
        \<not> isl (if_else wi default_w_initializer)
        \<and> \<not> isl (if_else bi default_b_initializer))
   \<and> (\<forall>c. ConvolutionalTransposeLayer_init n k s p b bnf af wi wr bi br d e nm' = Inr c \<longrightarrow>
        upper p \<notin> SUPPORTED_PADDING \<longrightarrow>
        ConvolutionalTransposeLayer_layer_op bn_call acti_call c x tr kp g =
          Inl (UnsupportedOperation (upper p)))"
proof (intro conjI allI impI)
  show "(\<exists>l. ConvTransLayer_init n k s p b wi wr bi br nm = Inr l) \<longleftrightarrow>
       upper p \<in> SUPPORTED_PADDING \<and> rectangular k \<and> rectangular s
       \<and> \<not> isl (if_else wi default_w_initializer)
       \<and> \<not> isl (if_else bi default_b_initializer)"
    by (rule ConvTransLayer_init_Inr)
next
  assume "upper p \<notin> SUPPORTED_PADDING"
  then show "ConvTransLayer_init n k s p b wi wr bi br nm =
      Inl (UnsupportedOperation (upper p))"
    by (simp add: ConvTransLayer_init_eq)
next
  fix l assume l: "ConvTransLayer_init n k s p b wi wr bi br nm = Inr l"
  then show pad: "padding l = ''SAME'' \<or> padding l = ''VALID''"
    by (auto simp add: ConvTransLayer_init_eq SUPPORTED_PADDING_def
        split: if_splits sum.splits)
  show "ConvTransLayer_layer_op l x g \<noteq>
      Inl (FrameworkError ''padding must be either VALID or SAME'')"
    using ConvTransLayer_layer_op_Inl(1) [OF _ pad] by blast
  fix t show "ConvTransLayer_layer_op l x g \<noteq> Inl (UnsupportedOperation t)"
    using ConvTransLayer_layer_op_Inl(2) [OF _ pad] by blast
next
  show "(\<exists>c. ConvolutionalTransposeLayer_init n k s p b bnf af wi wr bi br d e nm' = Inr c) \<longleftrightarrow>
        \<not> isl (if_else wi default_w_initializer)
        \<and> \<not> isl (if_else bi default_b_initializer)"
    by (rule ConvolutionalTransposeLayer_init_Inr)
next
  fix c
  assume c: "ConvolutionalTransposeLayer_init n k s p b bnf af wi wr bi br d e nm' = Inr c"
    and "upper p \<notin> SUPPORTED_PADDING"
  then show "ConvolutionalTransposeLayer_layer_op bn_call acti_call c x tr kp g =
          Inl (UnsupportedOperation (upper p))"
    using conv_trans_layer_unsupported [of c] ConvolutionalTransposeLayer_init_fields(4) [OF c]
    by simp
qed

theorem C3_witness:
  "(\<exists>l. ConvTransLayer_init 16 (Scalar 3) (Scalar 1) ''same'' False
           (None :: unit initializer option) (None :: unit option) None None ''conv'' = Inr l)
   \<and> ConvTransLayer_init 16 (Scalar 3) (Scalar 1) ''FULL'' False
           (None :: unit initializer option) (None :: unit option) None None ''conv''
       = Inl (UnsupportedOperation ''FULL'')
   \<and> (\<exists>c. ConvolutionalTransposeLayer_init 16 (Scalar 3) (Scalar 1) ''FULL'' False True None
            (None :: unit initializer option) (None :: unit option) None None
            (0.9 :: real) 0.00001 ''conv_trans'' = Inr c
          \<and> ConvolutionalTransposeLayer_layer_op recording_bn_call recording_acti_call c
                (Op ''input'' [1, 8, 8, 8, 4] []) None None []
              = Inl (UnsupportedOperation ''FULL''))"
proof -
  note a = C3_padding_checked_when_primitive_is_built
    [of 16 "Scalar 3" "Scalar 1" "''same''" False "None :: unit initializer option"
      "None :: unit option" None None "''conv''" _ _ True None "0.9 :: real" "0.00001"
      "''conv_trans''" recording_bn_call recording_acti_call None None]
  note b = C3_padding_checked_when_primitive_is_built
    [of 16 "Scalar 3" "Scalar 1" "''FULL''" False "None :: unit initializer option"
      "None :: unit option" None None "''conv''" "Op ''input'' [1, 8, 8, 8, 4] []" "[]"
      True None "0.9 :: real" "0.00001"
      "''conv_trans''" recording_bn_call recording_acti_call None None]
  from a have 1: "\<exists>l. ConvTransLayer_init 16 (Scalar 3) (Scalar 1) ''same'' False
           (None :: unit initializer option) (None :: unit option) None None ''conv'' = Inr l"
    by (simp add: upper_examples FULL_unsupported)
  from b have 2: "ConvTransLayer_init 16 (Scalar 3) (Scalar 1) ''FULL'' False
           (None :: unit initializer option) (None :: unit option) None None ''conv''
       = Inl (UnsupportedOperation ''FULL'')"
    by (simp add: upper_examples FULL_unsupported)
  from b have "\<exists>c. ConvolutionalTransposeLayer_init 16 (Scalar 3) (Scalar 1) ''FULL'' False
            True None (None :: unit initializer option) (None :: unit option) None None
            (0.9 :: real) 0.00001 ''conv_trans'' = Inr c"
    by simp
  then obtain c where c: "ConvolutionalTransposeLayer_init 16 (Scalar 3) (Scalar 1) ''FULL''
            False True None (None :: unit initializer option) (None :: unit option) None None
            (0.9 :: real) 0.00001 ''conv_trans'' = Inr c"
    by blast
  with b have "ConvolutionalTransposeLayer_layer_op recording_bn_call recording_acti_call c
                (Op ''input'' [1, 8, 8, 8, 4] []) None None []
              = Inl (UnsupportedOperation ''FULL'')"
    by (simp add: upper_examples FULL_unsupported)
  with 1 2 c show ?thesis by blast
qed


subsection \<open>Inputs the primitive layer accepts\<close>

text \<open>
  C4, as the specification gives it: for an input of any spatial rank (1-D,
  2-D or 3-D) the primitive layer produces a tensor with the same batch
  dimension and the same number of spatial dimensions, only the channel count
  being replaced. A call on an input with two spatial dimensions produces
  nothing: the layer always calls the 3-D operator, which rejects it.
\<close>

theorem C4_counterexample:
  "and_then
     (ConvTransLayer_init 16 (Scalar 3) (Scalar 1) ''SAME'' False
        (None :: unit initializer option) (None :: unit option) None None ''conv'')
     (\<lambda>l. ConvTransLayer_layer_op l (Op ''input'' [1, 8, 8, 4] []) [])
   = Inl (FrameworkError ''value and filter must be 5-D'')"
  by code_simp

text \<open>
  C4, amended: for every input tensor of rank 5 (three spatial dimensions)
  whose dimensions are positive, and every layer with one kernel size k of at
  least 1, the stride 1, at least one output channel, a weight tensor of fewer
  than \<open>2 ^ 63\<close> elements, and padding SAME (or padding VALID with k = 1), the
  primitive layer produces a tensor whose shape is the input shape with only
  the channel count replaced by the configured number of output channels; and
  the layer produces a tensor for inputs of rank 5 only, and then always of
  that shape.
\<close>

theorem C4_rank5_input_channels_replaced:
  "(length (get_shape x) = 5 \<and> list_all (\<lambda>d. 1 \<le> d \<and> d < 2 ^ 63) (get_shape x)
      \<and> kernel_size l = [k] \<and> 1 \<le> k \<and> k < 2 ^ 63 \<and> stride l = [1]
      \<and> 1 \<le> n_output_chns l \<and> n_output_chns l < 2 ^ 63
      \<and> k * k * k * n_output_chns l * last (get_shape x) < 2 ^ 63
      \<and> (padding l = ''SAME'' \<or> padding l = ''VALID'' \<and> k = 1)
     \<longrightarrow> (\<exists>y g'. ConvTransLayer_layer_op l x g = Inr (y, g')
            \<and> get_shape y = butlast (get_shape x) @ [n_output_chns l]))
   \<and> (\<forall>y g'. ConvTransLayer_layer_op l x g = Inr (y, g') \<longrightarrow>
         length (get_shape x) = 5
         \<and> get_shape y = butlast (get_shape x) @ [n_output_chns l])"
proof (intro conjI allI impI)
  assume a: "length (get_shape x) = 5 \<and> list_all (\<lambda>d. 1 \<le> d \<and> d < 2 ^ 63) (get_shape x)
      \<and> kernel_size l = [k] \<and> 1 \<le> k \<and> k < 2 ^ 63 \<and> stride l = [1]
      \<and> 1 \<le> n_output_chns l \<and> n_output_chns l < 2 ^ 63
      \<and> k * k * k * n_output_chns l * last (get_shape x) < 2 ^ 63
      \<and> (padding l = ''SAME'' \<or> padding l = ''VALID'' \<and> k = 1)"
  then have "list_all dimension (get_shape x)"
    by (auto simp add: list_all_iff dimension_def)
  with a obtain y g' where h: "ConvTransLayer_layer_op l x g = Inr (y, g')"
    using ConvTransLayer_layer_op_succeeds [of x l k g] by (auto simp add: dimension_def)
  with get_shape_result [OF h]
  show "\<exists>y g'. ConvTransLayer_layer_op l x g = Inr (y, g')
            \<and> get_shape y = butlast (get_shape x) @ [n_output_chns l]"
    by blast
next
  fix y g' assume h: "ConvTransLayer_layer_op l x g = Inr (y, g')"
  show "length (get_shape x) = 5"
    by (rule ConvTransLayer_layer_op_Inr(1) [OF h])
  show "get_shape y = butlast (get_shape x) @ [n_output_chns l]"
    by (rule get_shape_result [OF h])
qed

theorem C4_witness:
  "\<exists>y g'. ConvTransLayer_layer_op
       \<lparr>name = ''conv'', padding = ''SAME'', n_output_chns = 16, kernel_size = [3],
        stride = [1], with_bias = False,
        initializers_w = (default_w_initializer :: unit initializer),
        initializers_b = default_b_initializer,
        regularizers_w = (None :: unit option), regularizers_b = None\<rparr>
       (Op ''input'' [2, 8, 9, 10, 4] []) [] = Inr (y, g')
     \<and> get_shape y = [2, 8, 9, 10, 16]"
  using C4_rank5_input_channels_replaced
    [of "Op ''input'' [2, 8, 9, 10, 4] [] :: (unit, unit) tensor"
       "\<lparr>name = ''conv'', padding = ''SAME'', n_output_chns = 16, kernel_size = [3],
        stride = [1], with_bias = False,
        initializers_w = (default_w_initializer :: unit initializer),
        initializers_b = default_b_initializer,
        regularizers_w = (None :: unit option), regularizers_b = None\<rparr>" 3 "[]"]
  by simp

subsection \<open>The composite block\<close>


lemma truth_if_else:
  assumes "if_else v d = Inr r" and "truth d = Inr True"
  shows "truth r = Inr True"
proof (cases v)
  case None
  with assms show ?thesis by (simp add: if_else_def)
next
  case (Some j)
  with assms show ?thesis
    by (cases j rule: truth.cases) (auto simp add: if_else_def)
qed






subsection \<open>Kernel sizes and strides\<close>

lemma ConvTransLayer_init_fields:
  assumes "ConvTransLayer_init n k s p b wi wr bi br nm = Inr l"
  shows "kernel_size l = flatten k" and "stride l = flatten s" and "n_output_chns l = n"
    and "with_bias l = b" and "regularizers_w l = wr" and "regularizers_b l = br"
    and "padding l = upper p"
    and "if_else wi default_w_initializer = Inr (initializers_w l)"
    and "if_else bi default_b_initializer = Inr (initializers_b l)"
  using assms by (auto simp add: ConvTransLayer_init_eq split: if_splits sum.splits)

text \<open>
  C6: for a layer constructed with a scalar kernel size k and a scalar stride
  s, and an input of spatial rank N (at least one spatial dimension), the
  kernel sizes that make up the shape of the weight tensor are k repeated N
  times (followed by the output and input channel counts), and the strides
  are s repeated N times; in every call that returns, the filter of the
  transposed convolution has that shape and the operator is given the strides
  1, s repeated N times, 1.
\<close>

theorem C6_scalar_kernel_size_and_stride_are_broadcast:
  assumes "ConvTransLayer_init n (Scalar k) (Scalar s) p b wi wr bi br nm = Inr l"
    and "0 < infer_spatial_rank x"
  shows "w_full_size l (infer_spatial_rank x) (last (get_shape x)) =
           Inr (replicate (nat (infer_spatial_rank x)) k @ [n, last (get_shape x)])
    \<and> full_stride l (infer_spatial_rank x) = Inr (replicate (nat (infer_spatial_rank x)) s)
    \<and> (\<forall>y g'. ConvTransLayer_layer_op l x g = Inr (y, g') \<longrightarrow>
          map_option var_shape (filter_of y) =
            Some (replicate (nat (infer_spatial_rank x)) k @ [n, last (get_shape x)])
          \<and> strides_of y = Some ([1] @ replicate (nat (infer_spatial_rank x)) s @ [1]))"
proof (intro conjI allI impI)
  note f = ConvTransLayer_init_fields [OF assms(1)]
  show "w_full_size l (infer_spatial_rank x) (last (get_shape x)) =
           Inr (replicate (nat (infer_spatial_rank x)) k @ [n, last (get_shape x)])"
    using assms(2) f by (simp add: w_full_size_eq)
  show "full_stride l (infer_spatial_rank x) = Inr (replicate (nat (infer_spatial_rank x)) s)"
    using assms(2) f by (simp add: full_stride_eq concat_replicate_single)
  fix y g' assume h: "ConvTransLayer_layer_op l x g = Inr (y, g')"
  have N: "nat (infer_spatial_rank x) = 3"
    using ConvTransLayer_layer_op_Inr(1) [OF h] by (simp add: infer_spatial_rank_def)
  show "map_option var_shape (filter_of y) =
            Some (replicate (nat (infer_spatial_rank x)) k @ [n, last (get_shape x)])"
    using ConvTransLayer_layer_op_Inr(3) [OF h] f N by simp
  show "strides_of y = Some ([1] @ replicate (nat (infer_spatial_rank x)) s @ [1])"
    using ConvTransLayer_layer_op_Inr(3) [OF h] f N
    by (simp add: concat_replicate_single)
qed

theorem C6_witness:
  "\<exists>l. ConvTransLayer_init 16 (Scalar 3) (Scalar 1) ''SAME'' False
          (None :: unit initializer option) (None :: unit option) None None ''conv'' = Inr l
     \<and> w_full_size l 3 4 = Inr [3, 3, 3, 16, 4]
     \<and> full_stride l 3 = Inr [1, 1, 1]
     \<and> (\<exists>y g'. ConvTransLayer_layer_op l (Op ''input'' [1, 8, 8, 8, 4] []) [] = Inr (y, g')
          \<and> map_option var_shape (filter_of y) = Some [3, 3, 3, 16, 4]
          \<and> strides_of y = Some [1, 1, 1, 1, 1])"
proof -
  let ?x = "Op ''input'' [1, 8, 8, 8, 4] [] :: (unit, unit) tensor"
  obtain l where l: "ConvTransLayer_init 16 (Scalar 3) (Scalar 1) ''SAME'' False
          (None :: unit initializer option) (None :: unit option) None None ''conv'' = Inr l"
    by (simp add: ConvTransLayer_init_eq upper_examples FULL_unsupported)
  have N: "infer_spatial_rank ?x = 3" "0 < infer_spatial_rank ?x"
    by (simp_all add: infer_spatial_rank_def)
  note f = ConvTransLayer_init_fields [OF l]
  have "\<exists>y g'. ConvTransLayer_layer_op l ?x [] = Inr (y, g')"
    by (rule ConvTransLayer_layer_op_succeeds [where k = 3])
       (simp_all add: f upper_examples dimension_def)
  then obtain y g' where h: "ConvTransLayer_layer_op l ?x [] = Inr (y, g')"
    by blast
  note r = C6_scalar_kernel_size_and_stride_are_broadcast [OF l N(2), of "[]"]
  from r h have "w_full_size l 3 4 = Inr [3, 3, 3, 16, 4]"
    and "full_stride l 3 = Inr [1, 1, 1]"
    and "map_option var_shape (filter_of y) = Some [3, 3, 3, 16, 4]"
    and "strides_of y = Some [1, 1, 1, 1, 1]"
    by (simp_all add: N replicate3)
  with l h show ?thesis by blast
qed

text \<open>
  C7: a kernel size or a stride given as a sequence with one entry per spatial
  axis should be accepted and used entry by entry. The constructor accepts
  such sequences, but the call does not use them so. With the kernel sizes
  [3, 3, 3] on an input with three spatial dimensions the call fails when the
  shape of the weight tensor is stacked; with the strides [1, 1, 1] the whole
  sequence is repeated for every axis, and the operator refuses the eleven
  strides it is handed.
\<close>

theorem C7_per_axis_sequences_refused:
  "and_then
     (ConvTransLayer_init 16 (Vector [3, 3, 3]) (Scalar 1) ''SAME'' False
        (None :: unit initializer option) (None :: unit option) None None ''conv'')
     (\<lambda>l. ConvTransLayer_layer_op l (Op ''input'' [1, 8, 8, 8, 4] []) [])
   = Inl NumpyValueError
   \<and> and_then
     (ConvTransLayer_init 16 (Scalar 3) (Vector [1, 1, 1]) ''SAME'' False
        (None :: unit initializer option) (None :: unit option) None None ''conv'')
     (\<lambda>l. ConvTransLayer_layer_op l (Op ''input'' [1, 8, 8, 8, 4] []) [])
   = Inl (FrameworkError ''strides must be five integers'')"
  by code_simp

subsection \<open>The bias term\<close>

text \<open>
  C8: in every call of the primitive layer that returns, the layer has created
  the weight parameter and handed it to the transposed-convolution operator;
  without bias it has created nothing else and returns the result of the
  operator unchanged; with bias it has created, after the weight, exactly one
  more parameter, named b, whose shape is the number of output channels, and
  returns the result of the operator with that bias added.
\<close>

theorem C8_bias_parameter_only_with_bias:
  assumes "ConvTransLayer_layer_op l x g = Inr (y, g')"
  shows "\<exists>w conv st.
      var_name w = ''w''
    \<and> conv3d_transpose x w (butlast (get_shape x) @ [n_output_chns l]) st (padding l)
        ''conv_trans'' = Inr conv
    \<and> (if with_bias l then
         g' = g @ [w, \<lparr>var_name = ''b'', var_shape = [n_output_chns l],
                       var_initializer = initializers_b l,
                       var_regularizer = regularizers_b l\<rparr>]
         \<and> bias_add conv
              \<lparr>var_name = ''b'', var_shape = [n_output_chns l],
               var_initializer = initializers_b l, var_regularizer = regularizers_b l\<rparr>
              ''add_bias'' = Inr y
       else g' = g @ [w] \<and> y = conv)"
proof -
  from assms obtain w_size f_stride conv_kernel g1 output_tensor where
    gv: "get_variable ''w'' w_size (initializers_w l) (regularizers_w l) g
               = Inr (conv_kernel, g1)"
    and ct: "conv3d_transpose x conv_kernel (butlast (get_shape x) @ [n_output_chns l])
       ([1] @ f_stride @ [1]) (padding l) ''conv_trans'' = Inr output_tensor"
    and rest: "if with_bias l then
       \<exists>bias_term. get_variable ''b'' [n_output_chns l] (initializers_b l) (regularizers_b l) g1
           = Inr (bias_term, g')
         \<and> bias_add output_tensor bias_term ''add_bias'' = Inr y
     else y = output_tensor \<and> g' = g1"
    by (rule ConvTransLayer_layer_op_steps)
  from gv have w: "var_name conv_kernel = ''w''" and g1: "g1 = g @ [conv_kernel]"
    by (simp_all add: get_variable_Inr)
  from rest g1 have "if with_bias l then
         g' = g @ [conv_kernel, \<lparr>var_name = ''b'', var_shape = [n_output_chns l],
                       var_initializer = initializers_b l,
                       var_regularizer = regularizers_b l\<rparr>]
         \<and> bias_add output_tensor
              \<lparr>var_name = ''b'', var_shape = [n_output_chns l],
               var_initializer = initializers_b l, var_regularizer = regularizers_b l\<rparr>
              ''add_bias'' = Inr y
       else g' = g @ [conv_kernel] \<and> y = output_tensor"
    by (auto simp add: get_variable_Inr split: if_splits)
  with w ct show ?thesis by blast
qed

theorem C8_witness:
  "\<exists>y g' w conv st.
      ConvTransLayer_layer_op
       \<lparr>name = ''conv'', padding = ''SAME'', n_output_chns = 16, kernel_size = [3],
        stride = [1], with_bias = True,
        initializers_w = (default_w_initializer :: unit initializer),
        initializers_b = default_b_initializer,
        regularizers_w = (None :: unit option), regularizers_b = None\<rparr>
       (Op ''input'' [1, 8, 8, 8, 4] []) [] = Inr (y, g')
    \<and> var_name w = ''w''
    \<and> g' = [w, \<lparr>var_name = ''b'', var_shape = [16],
                 var_initializer = default_b_initializer, var_regularizer = None\<rparr>]
    \<and> bias_add conv
         \<lparr>var_name = ''b'', var_shape = [16],
          var_initializer = default_b_initializer, var_regularizer = None\<rparr>
         ''add_bias'' = Inr y"
proof -
  let ?l = "\<lparr>name = ''conv'', padding = ''SAME'', n_output_chns = 16, kernel_size = [3],
        stride = [1], with_bias = True,
        initializers_w = (default_w_initializer :: unit initializer),
        initializers_b = default_b_initializer,
        regularizers_w = (None :: unit option), regularizers_b = None\<rparr>"
  let ?x = "Op ''input'' [1, 8, 8, 8, 4] [] :: (unit, unit) tensor"
  have "\<exists>y g'. ConvTransLayer_layer_op ?l ?x [] = Inr (y, g')"
    by (rule ConvTransLayer_layer_op_succeeds [where k = 3])
       (simp_all add: dimension_def)
  then obtain y g' where h: "ConvTransLayer_layer_op ?l ?x [] = Inr (y, g')"
    by blast
  from C8_bias_parameter_only_with_bias [OF h] h show ?thesis
    by simp blast
qed


subsection \<open>What construction checks\<close>

lemma upper_valid: "upper ''valid'' = ''VALID''" "''VALID'' \<in> SUPPORTED_PADDING"
  by code_simp (simp add: SUPPORTED_PADDING_def)

text \<open>
  C9, as the specification gives it: construction of the primitive layer
  checks the padding only and succeeds for every other configuration value,
  arbitrary initializers included. With a supported padding, construction
  still fails for an initializer that has no truth value (an array), and for
  a kernel size that is a ragged sequence.
\<close>

theorem C9_counterexample:
  "ConvTransLayer_init 16 (Scalar 3) (Scalar 1) ''SAME'' False
     (Some (Supplied HasNoTruthValue ())) (None :: unit option) None None ''conv''
   = Inl TruthValueError
   \<and> ConvTransLayer_init 16 (Rows [[3], [3, 3]]) (Scalar 1) ''SAME'' False
     (None :: unit initializer option) (None :: unit option) None None ''conv''
   = Inl NumpyValueError"
  by (simp add: ConvTransLayer_init_eq upper_examples FULL_unsupported if_else_def)

text \<open>
  C9, amended: construction of the primitive layer looks the padding up, makes
  the kernel size and the stride into flat arrays and takes the truth value of
  the two initializers, and it can fail in these steps only. With a supported
  padding, a kernel size and a stride that are numbers or rectangular
  sequences, and initializers that are absent or have a truth value, it
  succeeds and stores the other arguments as they are, whatever the number of
  output channels, the values of the kernel size and of the stride, the bias
  flag and the regularizers; an initializer that is absent or false is
  replaced by the default. What such values break shows when the layer is
  called: a layer constructed with a negative number of output channels, or a
  kernel size that is negative or not a single number, fails in every call.
\<close>

theorem C9_construction_checks:
  "(upper p \<in> SUPPORTED_PADDING \<and> rectangular k \<and> rectangular s
      \<and> if_else wi default_w_initializer = Inr w0
      \<and> if_else bi default_b_initializer = Inr b0 \<longrightarrow>
      ConvTransLayer_init n k s p b wi wr bi br nm =
        Inr \<lparr>name = nm, padding = upper p, n_output_chns = n, kernel_size = flatten k,
             stride = flatten s, with_bias = b,
             initializers_w = w0, initializers_b = b0,
             regularizers_w = wr, regularizers_b = br\<rparr>)
   \<and> (\<forall>err. ConvTransLayer_init n k s p b wi wr bi br nm = Inl err \<longrightarrow>
         err = UnsupportedOperation (upper p) \<and> upper p \<notin> SUPPORTED_PADDING
         \<or> err = NumpyValueError \<and> \<not> (rectangular k \<and> rectangular s)
         \<or> err = TruthValueError
             \<and> ((\<exists>i. wi = Some (Supplied HasNoTruthValue i))
                \<or> (\<exists>i. bi = Some (Supplied HasNoTruthValue i))))
   \<and> (if_else None d = Inr d
        \<and> if_else (Some (Supplied IsTrue i)) d = Inr (Supplied IsTrue i)
        \<and> if_else (Some (Supplied IsFalse i)) d = Inr d)
   \<and> (\<forall>l. ConvTransLayer_init n k s p b wi wr bi br nm = Inr l \<longrightarrow>
         n < 0 \<or> length (flatten k) \<noteq> 1 \<or> hd (flatten k) < 0 \<longrightarrow>
         isl (ConvTransLayer_layer_op l x g))"
proof (intro conjI allI impI)
  assume "upper p \<in> SUPPORTED_PADDING \<and> rectangular k \<and> rectangular s
      \<and> if_else wi default_w_initializer = Inr w0
      \<and> if_else bi default_b_initializer = Inr b0"
  then show "ConvTransLayer_init n k s p b wi wr bi br nm =
        Inr \<lparr>name = nm, padding = upper p, n_output_chns = n, kernel_size = flatten k,
             stride = flatten s, with_bias = b,
             initializers_w = w0, initializers_b = b0,
             regularizers_w = wr, regularizers_b = br\<rparr>"
    by (simp add: ConvTransLayer_init_eq)
next
  fix err assume e: "ConvTransLayer_init n k s p b wi wr bi br nm = Inl err"
  show "err = UnsupportedOperation (upper p) \<and> upper p \<notin> SUPPORTED_PADDING
         \<or> err = NumpyValueError \<and> \<not> (rectangular k \<and> rectangular s)
         \<or> err = TruthValueError
             \<and> ((\<exists>i. wi = Some (Supplied HasNoTruthValue i))
                \<or> (\<exists>i. bi = Some (Supplied HasNoTruthValue i)))"
  proof (cases "upper p \<in> SUPPORTED_PADDING")
    case False
    with e show ?thesis by (simp add: ConvTransLayer_init_eq)
  next
    case True
    show ?thesis
    proof (cases "rectangular k \<and> rectangular s")
      case False
      with e True show ?thesis by (auto simp add: ConvTransLayer_init_eq)
    next
      case rect: True
      show ?thesis
      proof (cases "if_else wi default_w_initializer")
        case (Inl e1)
        with e True rect have "err = e1" by (simp add: ConvTransLayer_init_eq)
        with Inl show ?thesis by (simp add: if_else_Inl)
      next
        case (Inr w1)
        with e True rect have "if_else bi default_b_initializer = Inl err"
          by (simp add: ConvTransLayer_init_eq split: sum.splits)
        then show ?thesis by (simp add: if_else_Inl)
      qed
    qed
  qed
next
  show "if_else None d = Inr d" by simp
  show "if_else (Some (Supplied IsTrue i)) d = Inr (Supplied IsTrue i)"
    by (simp add: if_else_def)
  show "if_else (Some (Supplied IsFalse i)) d = Inr d"
    by (simp add: if_else_def)
next
  fix l
  assume l: "ConvTransLayer_init n k s p b wi wr bi br nm = Inr l"
    and bad: "n < 0 \<or> length (flatten k) \<noteq> 1 \<or> hd (flatten k) < 0"
  note f = ConvTransLayer_init_fields [OF l]
  show "isl (ConvTransLayer_layer_op l x g)"
  proof (cases "ConvTransLayer_layer_op l x g")
    case (Inl e)
    then show ?thesis by simp
  next
    case (Inr r)
    then have h: "ConvTransLayer_layer_op l x g = Inr (fst r, snd r)" by simp
    from ConvTransLayer_layer_op_Inr(2) [OF h] ConvTransLayer_layer_op_Inr(5) [OF h] f bad
    show ?thesis by auto
  qed
qed

theorem C9_witness:
  "ConvTransLayer_init (- 1) (Scalar 0) (Scalar (- 2)) ''valid'' True
      (Some (Supplied IsFalse ())) (None :: unit option) None None ''conv''
     = Inr \<lparr>name = ''conv'', padding = ''VALID'', n_output_chns = - 1, kernel_size = [0],
            stride = [- 2], with_bias = True,
            initializers_w = default_w_initializer, initializers_b = default_b_initializer,
            regularizers_w = None, regularizers_b = None\<rparr>
   \<and> isl (ConvTransLayer_layer_op
        \<lparr>name = ''conv'', padding = ''VALID'', n_output_chns = - 1, kernel_size = [0],
            stride = [- 2], with_bias = True,
            initializers_w = (default_w_initializer :: unit initializer),
            initializers_b = default_b_initializer,
            regularizers_w = (None :: unit option), regularizers_b = None\<rparr>
        (Op ''input'' [1, 8, 8, 8, 4] []) [])"
proof -
  note r = C9_construction_checks
    [of "''valid''" "Scalar 0" "Scalar (- 2)" "Some (Supplied IsFalse ())"
       "default_w_initializer :: unit initializer" None default_b_initializer "- 1" True
       "None :: unit option" None "''conv''" "default_w_initializer :: unit initializer" "()"
       "Op ''input'' [1, 8, 8, 8, 4] []" "[]"]
  from r have 1: "ConvTransLayer_init (- 1) (Scalar 0) (Scalar (- 2)) ''valid'' True
      (Some (Supplied IsFalse ())) (None :: unit option) None None ''conv''
     = Inr \<lparr>name = ''conv'', padding = ''VALID'', n_output_chns = - 1, kernel_size = [0],
            stride = [- 2], with_bias = True,
            initializers_w = default_w_initializer, initializers_b = default_b_initializer,
            regularizers_w = None, regularizers_b = None\<rparr>"
    by (simp add: upper_valid if_else_def)
  with r have "isl (ConvTransLayer_layer_op
        \<lparr>name = ''conv'', padding = ''VALID'', n_output_chns = - 1, kernel_size = [0],
            stride = [- 2], with_bias = True,
            initializers_w = (default_w_initializer :: unit initializer),
            initializers_b = default_b_initializer,
            regularizers_w = (None :: unit option), regularizers_b = None\<rparr>
        (Op ''input'' [1, 8, 8, 8, 4] []) [])"
    by simp
  with 1 show ?thesis by blast
qed


subsection \<open>Regularizers of the sub-layers\<close>

text \<open>
  C10: every call of the composite layer constructs the primitive sub-layer
  with the weight regularizer and the bias regularizer, and calls it; hands
  the normalization collaborator, when normalization is enabled, a layer
  constructed with the weight regularizer; hands the activation collaborator,
  when an activation function is given, a layer constructed with the weight
  regularizer; and hands it the dropout layer, constructed with no
  regularizer, when a keep-probability is given. The parameters that the
  primitive sub-layer has created when it returns carry the weight
  regularizer, and the bias, where there is one, the bias regularizer.
\<close>

theorem C10_sub_layers_are_handed_their_regularizers:
  "ConvolutionalTransposeLayer_layer_op bn_call acti_call c x tr kp g =
     and_then (and_then (and_then (and_then
       (ConvTransLayer_init (n_output_chns' c) (kernel_size' c) (stride' c) (padding' c)
          (with_bias' c) (Some (initializers_w' c)) (regularizers_w' c)
          (Some (initializers_b' c)) (regularizers_b' c) ''conv_trans_'')
       (\<lambda>l. ConvTransLayer_layer_op l x g))
       (\<lambda>(t, g').
          if with_bn c then
            bn_call \<lparr>bn_regularizer = regularizers_w' c, bn_moving_decay = moving_decay c,
                     bn_eps = eps c, bn_name = ''bn_''\<rparr> t tr g'
          else Inr (t, g')))
       (\<lambda>(t, g').
          case acti_func c of
            None \<Rightarrow> Inr (t, g')
          | Some f \<Rightarrow>
              acti_call \<lparr>func = f, acti_regularizer = Given (regularizers_w' c),
                         acti_name = ''acti_''\<rparr> t Omitted g'))
       (\<lambda>(t, g').
          case kp of
            None \<Rightarrow> Inr (t, g')
          | Some q \<Rightarrow>
              acti_call \<lparr>func = ''dropout'', acti_regularizer = Omitted,
                         acti_name = ''dropout_''\<rparr> t (Given q) g')
   \<and> (\<forall>t g'.
        and_then
          (ConvTransLayer_init (n_output_chns' c) (kernel_size' c) (stride' c) (padding' c)
             (with_bias' c) (Some (initializers_w' c)) (regularizers_w' c)
             (Some (initializers_b' c)) (regularizers_b' c) ''conv_trans_'')
          (\<lambda>l. ConvTransLayer_layer_op l x g) = Inr (t, g') \<longrightarrow>
        map var_regularizer (drop (length g) g') =
          (if with_bias' c then [regularizers_w' c, regularizers_b' c]
           else [regularizers_w' c]))"
proof (intro conjI allI impI)
  show "ConvolutionalTransposeLayer_layer_op bn_call acti_call c x tr kp g =
     and_then (and_then (and_then (and_then
       (ConvTransLayer_init (n_output_chns' c) (kernel_size' c) (stride' c) (padding' c)
          (with_bias' c) (Some (initializers_w' c)) (regularizers_w' c)
          (Some (initializers_b' c)) (regularizers_b' c) ''conv_trans_'')
       (\<lambda>l. ConvTransLayer_layer_op l x g))
       (\<lambda>(t, g').
          if with_bn c then
            bn_call \<lparr>bn_regularizer = regularizers_w' c, bn_moving_decay = moving_decay c,
                     bn_eps = eps c, bn_name = ''bn_''\<rparr> t tr g'
          else Inr (t, g')))
       (\<lambda>(t, g').
          case acti_func c of
            None \<Rightarrow> Inr (t, g')
          | Some f \<Rightarrow>
              acti_call \<lparr>func = f, acti_regularizer = Given (regularizers_w' c),
                         acti_name = ''acti_''\<rparr> t Omitted g'))
       (\<lambda>(t, g').
          case kp of
            None \<Rightarrow> Inr (t, g')
          | Some q \<Rightarrow>
              acti_call \<lparr>func = ''dropout'', acti_regularizer = Omitted,
                         acti_name = ''dropout_''\<rparr> t (Given q) g')"
    by (simp add: ConvolutionalTransposeLayer_layer_op_def conv_trans_layer_def
        bn_layer_def acti_layer_def dropout_layer_def and_then_def
        split: sum.splits option.splits prod.splits)
next
  fix t g'
  assume a: "and_then
      (ConvTransLayer_init (n_output_chns' c) (kernel_size' c) (stride' c) (padding' c)
         (with_bias' c) (Some (initializers_w' c)) (regularizers_w' c)
         (Some (initializers_b' c)) (regularizers_b' c) ''conv_trans_'')
      (\<lambda>l. ConvTransLayer_layer_op l x g) = Inr (t, g')"
  then obtain l where
    l: "ConvTransLayer_init (n_output_chns' c) (kernel_size' c) (stride' c) (padding' c)
         (with_bias' c) (Some (initializers_w' c)) (regularizers_w' c)
         (Some (initializers_b' c)) (regularizers_b' c) ''conv_trans_'' = Inr l"
    and h: "ConvTransLayer_layer_op l x g = Inr (t, g')"
    by (auto simp add: and_then_def split: sum.splits)
  note f = ConvTransLayer_init_fields [OF l]
  from ConvTransLayer_layer_op_Inr(4) [OF h] f
  show "map var_regularizer (drop (length g) g') =
          (if with_bias' c then [regularizers_w' c, regularizers_b' c]
           else [regularizers_w' c])"
    by simp
qed

theorem C10_witness:
  "\<exists>c t. ConvolutionalTransposeLayer_init 16 (Scalar 3) (Scalar 1) ''SAME'' True True
            (Some ''relu'') (None :: unit initializer option) (Some (1 :: nat)) None (Some 2)
            (0.9 :: real) 0.00001 ''conv_trans'' = Inr c
     \<and> ConvolutionalTransposeLayer_layer_op
          (\<lambda>l t tr g.
             if bn_regularizer l = Some 1 then Inr (Op (bn_name l) (get_shape t) [t], g)
             else Inl (LayerError ''another regularizer''))
          (\<lambda>l t q g.
             if acti_regularizer l = Given (Some 1) \<or> acti_regularizer l = Omitted
             then Inr (Op (func l) (get_shape t) [t], g)
             else Inl (LayerError ''another regularizer''))
          c (Op ''input'' [1, 8, 8, 8, 4] []) (Some True) (Some 0.5) []
        = Inr (Op ''dropout'' [1, 8, 8, 8, 16]
                 [Op ''relu'' [1, 8, 8, 8, 16] [Op ''bn_'' [1, 8, 8, 8, 16] [t]]],
               [\<lparr>var_name = ''w'', var_shape = [3, 3, 3, 16, 4],
                 var_initializer = default_w_initializer, var_regularizer = Some 1\<rparr>,
                \<lparr>var_name = ''b'', var_shape = [16],
                 var_initializer = default_b_initializer, var_regularizer = Some 2\<rparr>])
     \<and> ConvolutionalTransposeLayer_layer_op
          (\<lambda>l t tr g.
             if bn_regularizer l = Some 1 then Inl (LayerError ''the weight regularizer'')
             else Inr (t, g))
          recording_acti_call
          c (Op ''input'' [1, 8, 8, 8, 4] []) (Some True) (Some 0.5) []
        = Inl (LayerError ''the weight regularizer'')"
proof -
  let ?x = "Op ''input'' [1, 8, 8, 8, 4] [] :: (unit, nat) tensor"
  obtain c where c: "ConvolutionalTransposeLayer_init 16 (Scalar 3) (Scalar 1) ''SAME'' True True
            (Some ''relu'') (None :: unit initializer option) (Some (1 :: nat)) None (Some 2)
            (0.9 :: real) 0.00001 ''conv_trans'' = Inr c"
    by (simp add: ConvolutionalTransposeLayer_init_def)
  note f = ConvolutionalTransposeLayer_init_fields [OF c]
  from f(12,13) have i: "initializers_w' c = default_w_initializer"
    "initializers_b' c = default_b_initializer"
    by simp_all
  obtain l where l: "ConvTransLayer_init (n_output_chns' c) (kernel_size' c) (stride' c)
      (padding' c) (with_bias' c) (Some (initializers_w' c)) (regularizers_w' c)
      (Some (initializers_b' c)) (regularizers_b' c) ''conv_trans_'' = Inr l"
    by (simp add: ConvTransLayer_init_eq f i upper_examples FULL_unsupported if_else_def)
  note fl = ConvTransLayer_init_fields [OF l]
  from fl(8,9) have il: "initializers_w l = default_w_initializer"
    "initializers_b l = default_b_initializer"
    by (simp_all add: i if_else_def)
  have "\<exists>y g'. ConvTransLayer_layer_op l ?x [] = Inr (y, g')"
    by (rule ConvTransLayer_layer_op_succeeds [where k = 3])
       (simp_all add: fl f upper_examples dimension_def)
  then obtain y g' where h: "ConvTransLayer_layer_op l ?x [] = Inr (y, g')"
    by blast
  from ConvTransLayer_layer_op_Inr(4) [OF h]
  have g': "g' = [\<lparr>var_name = ''w'', var_shape = [3, 3, 3, 16, 4],
                 var_initializer = default_w_initializer, var_regularizer = Some 1\<rparr>,
                \<lparr>var_name = ''b'', var_shape = [16],
                 var_initializer = default_b_initializer, var_regularizer = Some 2\<rparr>]"
    by (simp add: fl f il replicate3)
  from get_shape_result [OF h] have sh: "get_shape y = [1, 8, 8, 8, 16]"
    by (simp add: fl f)
  note r = C10_sub_layers_are_handed_their_regularizers [of _ _ c ?x "Some True" "Some 0.5" "[]"]
  have 1: "ConvolutionalTransposeLayer_layer_op
          (\<lambda>l t tr g.
             if bn_regularizer l = Some 1 then Inr (Op (bn_name l) (get_shape t) [t], g)
             else Inl (LayerError ''another regularizer''))
          (\<lambda>l t q g.
             if acti_regularizer l = Given (Some 1) \<or> acti_regularizer l = Omitted
             then Inr (Op (func l) (get_shape t) [t], g)
             else Inl (LayerError ''another regularizer''))
          c ?x (Some True) (Some 0.5) []
        = Inr (Op ''dropout'' [1, 8, 8, 8, 16]
                 [Op ''relu'' [1, 8, 8, 8, 16] [Op ''bn_'' [1, 8, 8, 8, 16] [y]]], g')"
    by (subst conjunct1 [OF r]) (use l h sh in \<open>simp add: f and_then_def\<close>)
  have 2: "ConvolutionalTransposeLayer_layer_op
          (\<lambda>l t tr g.
             if bn_regularizer l = Some 1 then Inl (LayerError ''the weight regularizer'')
             else Inr (t, g))
          recording_acti_call
          c ?x (Some True) (Some 0.5) []
        = Inl (LayerError ''the weight regularizer'')"
    by (subst conjunct1 [OF r]) (use l h in \<open>simp add: f and_then_def\<close>)
  from c 1 2 show ?thesis
    unfolding g' by blast
qed

end
